theory Spec2Isabelle
  imports Complex_Main "HOL-Library.Word"
begin

unbundle bit_operations_syntax

section \<open>The I2C transport\<close>

text \<open>
  The driver talks to the sensor through an object of MicroPython's \<open>machine.I2C\<close>, which is
  not part of the repository. It is taken as a parameter: a bus is the list of transactions
  issued so far (oldest first) together with two functions describing the device behind it.
  \<^item> \<open>nack h ev\<close>: after the transactions \<open>h\<close>, transaction \<open>ev\<close> is not acknowledged and the
    call raises \<open>OSError\<close>;
  \<^item> \<open>rx h addr k\<close>: after the transactions \<open>h\<close>, the \<open>k\<close>-th byte that a read from
    \<open>addr\<close> delivers.
  Every transaction the driver issues is recorded, whether it is acknowledged or not.
\<close>

type_synonym byte = "8 word"

datatype error = ValueError | OSError

datatype i2c_event = Writeto int "byte list" | Readfrom int nat

record i2c =
  trace :: "i2c_event list"
  nack :: "i2c_event list \<Rightarrow> i2c_event \<Rightarrow> bool"
  rx :: "i2c_event list \<Rightarrow> int \<Rightarrow> nat \<Rightarrow> byte"

text \<open>A method of the driver runs on a bus and yields a result or an exception, and the bus.\<close>

type_synonym 'a io = "i2c \<Rightarrow> (error + 'a) \<times> i2c"

definition ret :: "'a \<Rightarrow> 'a io" where
  "ret x bus = (Inr x, bus)"

definition lift :: "error + 'a \<Rightarrow> 'a io" where
  "lift r bus = (r, bus)"

definition seq :: "'a io \<Rightarrow> ('a \<Rightarrow> 'b io) \<Rightarrow> 'b io" where
  "seq m f bus =
     (case m bus of
        (Inl e, bus') \<Rightarrow> (Inl e, bus')
      | (Inr x, bus') \<Rightarrow> f x bus')"

text \<open>\<open>I2C.writeto(addr, buf)\<close>; the number of acknowledgements it returns is never used.\<close>

definition writeto :: "int \<Rightarrow> byte list \<Rightarrow> unit io" where
  "writeto addr buf bus =
     (let h = trace bus; ev = Writeto addr buf
      in (if nack bus h ev then Inl OSError else Inr (), bus\<lparr>trace := h @ [ev]\<rparr>))"

text \<open>\<open>I2C.readfrom(addr, nbytes)\<close>: exactly \<open>nbytes\<close> bytes.\<close>

definition readfrom :: "int \<Rightarrow> nat \<Rightarrow> (byte list) io" where
  "readfrom addr nbytes bus =
     (let h = trace bus; ev = Readfrom addr nbytes
      in (if nack bus h ev then Inl OSError else Inr (map (rx bus h addr) [0..<nbytes]),
          bus\<lparr>trace := h @ [ev]\<rparr>))"

section \<open>Python built-ins used by the driver\<close>

text \<open>\<open>x in range(lo, hi)\<close> for an integer \<open>x\<close>.\<close>

definition in_range :: "int \<Rightarrow> int \<Rightarrow> int \<Rightarrow> bool" where
  "in_range x lo hi = (lo \<le> x \<and> x < hi)"

text \<open>\<open>bytes([...])\<close> raises \<open>ValueError\<close> unless every element is in \<open>range(0, 256)\<close>.\<close>

definition py_bytes :: "int list \<Rightarrow> error + byte list" where
  "py_bytes xs =
     (if list_all (\<lambda>x. 0 \<le> x \<and> x < 256) xs then Inr (map word_of_int xs)
      else Inl ValueError)"

text \<open>\<open>int.from_bytes(bs, 'big')\<close>.\<close>

definition from_bytes_big :: "byte list \<Rightarrow> int" where
  "from_bytes_big bs = foldl (\<lambda>acc b. acc * 256 + uint b) 0 bs"

text \<open>
  \<open>float(n)\<close>, \<open>/\<close> and \<open>*\<close> on floats are modelled by exact arithmetic on \<open>real\<close>. The
  only floating-point expression of the driver is \<open>(float(n) / 4096) * 360\<close> with \<open>n\<close> read
  from two bytes; lemma \<open>degrees_exact\<close> below shows that the quotient and the product are
  then dyadic numbers with a significand of at most 22 bits, which binary floating point of
  single or double precision represents without rounding.
\<close>

definition float_of :: "int \<Rightarrow> real" where
  "float_of n = real_of_int n"

text \<open>The values in the dictionary that \<open>getStatus\<close> returns.\<close>

datatype pyval = PyBool bool | PyInt int

section \<open>The driver: class \<open>ASL5600L\<close>\<close>

definition ADDRESS :: int where "ADDRESS = 0x40"

definition CONF_REG :: int where "CONF_REG = 0x07"
definition STATUS_REG :: int where "STATUS_REG = 0x0B"
definition ANGLE_REG :: int where "ANGLE_REG = 0x0E"
definition AGC_REG :: int where "AGC_REG = 0x1A"

text \<open>
  \<open>__init__\<close>, lines 32 to 61: the two configuration bytes, from the options in the order of
  the signature.
\<close>

definition config_bytes :: "int \<Rightarrow> int \<Rightarrow> int \<Rightarrow> int \<Rightarrow> int \<Rightarrow> int \<Rightarrow> int \<Rightarrow> int \<times> int" where
  "config_bytes hyst powerMode watchdog fastFilterThreshold slowFilter pwmFreq outputStage =
     (let c1 = 0x00;
          c2 = 0x00;
          c1 = (if in_range watchdog 0 2 then c1 OR (push_bit 5 watchdog) else c1);
          c1 = (if in_range fastFilterThreshold 0 8
                then c1 OR (push_bit 2 fastFilterThreshold) else c1);
          c1 = (if in_range slowFilter 0 4 then c1 OR slowFilter else c1);
          c2 = (if in_range pwmFreq 0 4 then c2 OR (push_bit 6 pwmFreq) else c2);
          c2 = (if in_range outputStage 0 2 then c2 OR (push_bit 4 outputStage) else c2);
          c2 = (if in_range powerMode 0 4 then c2 OR powerMode else c2);
          c2 = (if in_range hyst 0 4 then c2 OR (push_bit 2 hyst) else c2)
      in (c1, c2))"

text \<open>
  \<open>__init__\<close>: \<open>bus\<close> is the object that \<open>I2C(i2cId, freq=i2cFreq)\<close> returned (line 31);
  line 63 writes the register selector and the two bytes.
\<close>

definition init :: "int \<Rightarrow> int \<Rightarrow> int \<Rightarrow> int \<Rightarrow> int \<Rightarrow> int \<Rightarrow> int \<Rightarrow> unit io" where
  "init hyst powerMode watchdog fastFilterThreshold slowFilter pwmFreq outputStage =
     (case config_bytes hyst powerMode watchdog fastFilterThreshold slowFilter pwmFreq
             outputStage of
        (c1, c2) \<Rightarrow>
          seq (lift (py_bytes [CONF_REG, c1, c2])) (\<lambda>buf.
          writeto ADDRESS buf))"

definition getStatus :: "(string \<rightharpoonup> pyval) io" where
  "getStatus =
     seq (lift (py_bytes [STATUS_REG])) (\<lambda>buf.
     seq (writeto ADDRESS buf) (\<lambda>_.
     seq (readfrom ADDRESS 1) (\<lambda>bs.
       let status = from_bytes_big bs;
           mh = (status AND 0b00001000 \<noteq> 0);
           ml = (status AND 0b00010000 \<noteq> 0);
           md = (status AND 0b00100000 \<noteq> 0)
       in
     seq (lift (py_bytes [AGC_REG])) (\<lambda>buf.
     seq (writeto ADDRESS buf) (\<lambda>_.
     seq (readfrom ADDRESS 1) (\<lambda>bs.
       let agc = from_bytes_big bs
       in ret [''magnetDetected'' \<mapsto> PyBool md,
               ''magnetTooWeak'' \<mapsto> PyBool ml,
               ''magnetTooStrong'' \<mapsto> PyBool mh,
               ''agc'' \<mapsto> PyInt agc]))))))"

definition isOk :: "bool io" where
  "isOk =
     seq (lift (py_bytes [STATUS_REG])) (\<lambda>buf.
     seq (writeto ADDRESS buf) (\<lambda>_.
     seq (readfrom ADDRESS 1) (\<lambda>bs.
       let status = from_bytes_big bs;
           mh = (status AND 0b00001000 \<noteq> 0);
           ml = (status AND 0b00010000 \<noteq> 0);
           md = (status AND 0b00100000 \<noteq> 0)
       in if md \<and> \<not> mh \<and> \<not> ml then ret True else ret False)))"

definition getAngle :: "int io" where
  "getAngle =
     seq (lift (py_bytes [ANGLE_REG])) (\<lambda>buf.
     seq (writeto ADDRESS buf) (\<lambda>_.
     seq (readfrom ADDRESS 2) (\<lambda>bs.
     ret (from_bytes_big bs))))"

text \<open>\<open>None\<close> is the result when the magnet cannot be read.\<close>

definition getAngleDegrees :: "(real option) io" where
  "getAngleDegrees =
     seq isOk (\<lambda>ok.
       if ok then seq getAngle (\<lambda>a. ret (Some ((float_of a / 4096) * 360)))
       else ret None)"

definition getAngleDegreesFast :: "real io" where
  "getAngleDegreesFast =
     seq (writeto ADDRESS [0x0e]) (\<lambda>_.
     seq (readfrom ADDRESS 2) (\<lambda>bs.
     ret ((float_of (from_bytes_big bs) / 4096) * 360)))"

definition getConf :: "int io" where
  "getConf =
     seq (lift (py_bytes [CONF_REG])) (\<lambda>buf.
     seq (writeto ADDRESS buf) (\<lambda>_.
     seq (readfrom ADDRESS 2) (\<lambda>bs.
     ret (from_bytes_big bs))))"

section \<open>Observing a run\<close>

text \<open>The transactions that a method issues when it runs on \<open>bus\<close>.\<close>

definition issued :: "'a io \<Rightarrow> i2c \<Rightarrow> i2c_event list" where
  "issued m bus = drop (length (trace bus)) (trace (snd (m bus)))"

text \<open>
  A simulated sensor for running the driver on concrete inputs: a register file \<open>regs\<close>, read
  from the register that the first byte of the latest write selected. It acknowledges the
  transactions addressed to \<open>0x40\<close> and no others.
\<close>

definition pointer :: "i2c_event list \<Rightarrow> nat" where
  "pointer h = foldl (\<lambda>p ev. case ev of Writeto a (r # bs) \<Rightarrow> unat r | _ \<Rightarrow> p) 0 h"

definition sim_i2c :: "(nat \<Rightarrow> byte) \<Rightarrow> i2c" where
  "sim_i2c regs =
     \<lparr>trace = [],
      nack = (\<lambda>h ev. case ev of Writeto a bs \<Rightarrow> a \<noteq> 0x40 | Readfrom a n \<Rightarrow> a \<noteq> 0x40),
      rx = (\<lambda>h a k. regs (pointer h + k))\<rparr>"

section \<open>Auxiliary facts\<close>

subsection \<open>Built-ins\<close>

lemma upt_2: "[0..<2] = [0, 1]"
  by (simp add: upt_rec)

lemma from_bytes_big_1: "from_bytes_big [b] = uint b"
  by (simp add: from_bytes_big_def)

lemma from_bytes_big_2: "from_bytes_big [hi, lo] = uint hi * 256 + uint lo"
  by (simp add: from_bytes_big_def)

lemma py_bytes_regs:
  "py_bytes [STATUS_REG] = Inr [0x0B]"
  "py_bytes [ANGLE_REG] = Inr [0x0E]"
  "py_bytes [AGC_REG] = Inr [0x1A]"
  "py_bytes [CONF_REG] = Inr [0x07]"
  by (simp_all add: py_bytes_def STATUS_REG_def ANGLE_REG_def AGC_REG_def CONF_REG_def)

lemma test_bit_uint: "(uint (s::byte) AND 2 ^ n = 0) = (\<not> (n < 8 \<and> bit s n))"
  by (simp add: and_exp_eq_0_iff_not_bit bit_uint_iff)

lemma status_masks:
  "(uint (s::byte) AND 8 = 0) = (\<not> bit s 3)"
  "(uint s AND 16 = 0) = (\<not> bit s 4)"
  "(uint s AND 32 = 0) = (\<not> bit s 5)"
  using test_bit_uint [of s 3] test_bit_uint [of s 4] test_bit_uint [of s 5] by simp_all

text \<open>Two bytes, high byte first, hold every value below \<open>2 ^ 16\<close>.\<close>

lemma be16_roundtrip:
  fixes v :: int
  assumes "0 \<le> v" and "v < 65536"
  shows "uint (word_of_int (v div 256) :: byte) * 256 + uint (word_of_int (v mod 256) :: byte) = v"
proof -
  have "v div 256 < 256" using assms by simp
  moreover have "0 \<le> v div 256" using assms by simp
  ultimately have "(v div 256) mod 256 = v div 256" by simp
  then show ?thesis
    by (simp add: uint_word_of_int take_bit_eq_mod)
qed

subsection \<open>The configuration bytes\<close>

lemma field_bounds:
  "in_range x 0 2 \<Longrightarrow> 0 \<le> push_bit 5 x \<and> push_bit 5 x < 256"
  "in_range x 0 8 \<Longrightarrow> 0 \<le> push_bit 2 x \<and> push_bit 2 x < 256"
  "in_range x 0 4 \<Longrightarrow> 0 \<le> push_bit 6 x \<and> push_bit 6 x < 256"
  "in_range x 0 2 \<Longrightarrow> 0 \<le> push_bit 4 x \<and> push_bit 4 x < 256"
  "in_range x 0 4 \<Longrightarrow> 0 \<le> push_bit 2 x \<and> push_bit 2 x < 256"
  "in_range x 0 4 \<Longrightarrow> 0 \<le> x \<and> x < 256"
  by (auto simp: in_range_def push_bit_eq_mult)

lemma or_byte:
  fixes x y :: int
  assumes "0 \<le> x \<and> x < 256" and "0 \<le> y \<and> y < 256"
  shows "0 \<le> x OR y \<and> x OR y < 256"
  using assms OR_upper [of x 8 y] by simp

text \<open>One guarded update of \<open>c1\<close> or \<open>c2\<close> keeps it a byte.\<close>

lemma set_field:
  fixes c v :: int
  assumes "0 \<le> c \<and> c < 256" and "g \<Longrightarrow> 0 \<le> v \<and> v < 256"
  shows "0 \<le> (if g then c OR v else c) \<and> (if g then c OR v else c) < 256"
  using assms or_byte [of c v] by (cases g) simp_all

lemma c1_byte:
  "0 \<le> fst (config_bytes h p w f s q o') \<and> fst (config_bytes h p w f s q o') < 256"
proof -
  let ?a = "if in_range w 0 2 then 0 OR push_bit 5 w else (0::int)"
  let ?b = "if in_range f 0 8 then ?a OR push_bit 2 f else ?a"
  let ?c = "if in_range s 0 4 then ?b OR s else ?b"
  have a: "0 \<le> ?a \<and> ?a < 256"
    by (rule set_field) (simp, erule field_bounds)
  have b: "0 \<le> ?b \<and> ?b < 256"
    by (rule set_field [OF a]) (erule field_bounds)
  have c: "0 \<le> ?c \<and> ?c < 256"
    by (rule set_field [OF b]) (erule field_bounds)
  have "fst (config_bytes h p w f s q o') = ?c"
    by (simp add: config_bytes_def Let_def)
  with c show ?thesis by simp
qed

lemma c2_byte:
  "0 \<le> snd (config_bytes h p w f s q o') \<and> snd (config_bytes h p w f s q o') < 256"
proof -
  let ?a = "if in_range q 0 4 then 0 OR push_bit 6 q else (0::int)"
  let ?b = "if in_range o' 0 2 then ?a OR push_bit 4 o' else ?a"
  let ?c = "if in_range p 0 4 then ?b OR p else ?b"
  let ?d = "if in_range h 0 4 then ?c OR push_bit 2 h else ?c"
  have a: "0 \<le> ?a \<and> ?a < 256"
    by (rule set_field) (simp, erule field_bounds)
  have b: "0 \<le> ?b \<and> ?b < 256"
    by (rule set_field [OF a]) (erule field_bounds)
  have c: "0 \<le> ?c \<and> ?c < 256"
    by (rule set_field [OF b]) (erule field_bounds)
  have d: "0 \<le> ?d \<and> ?d < 256"
    by (rule set_field [OF c]) (erule field_bounds)
  have "snd (config_bytes h p w f s q o') = ?d"
    by (simp add: config_bytes_def Let_def)
  with d show ?thesis by simp
qed

lemma py_bytes_config:
  "py_bytes [CONF_REG, fst (config_bytes h p w f s q o'), snd (config_bytes h p w f s q o')] =
     Inr [0x07, word_of_int (fst (config_bytes h p w f s q o')),
          word_of_int (snd (config_bytes h p w f s q o'))]"
  using c1_byte [of h p w f s q o'] c2_byte [of h p w f s q o']
  by (simp add: py_bytes_def CONF_REG_def)

lemma in_range_zero: "in_range 0 0 2" "in_range 0 0 4" "in_range 0 0 8"
  by (simp_all add: in_range_def)

lemma dropped_option:
  "\<not> in_range hyst 0 4 \<Longrightarrow>
     config_bytes hyst pm wd fft sf pwm os = config_bytes 0 pm wd fft sf pwm os"
  "\<not> in_range pm 0 4 \<Longrightarrow>
     config_bytes hyst pm wd fft sf pwm os = config_bytes hyst 0 wd fft sf pwm os"
  "\<not> in_range wd 0 2 \<Longrightarrow>
     config_bytes hyst pm wd fft sf pwm os = config_bytes hyst pm 0 fft sf pwm os"
  "\<not> in_range fft 0 8 \<Longrightarrow>
     config_bytes hyst pm wd fft sf pwm os = config_bytes hyst pm wd 0 sf pwm os"
  "\<not> in_range sf 0 4 \<Longrightarrow>
     config_bytes hyst pm wd fft sf pwm os = config_bytes hyst pm wd fft 0 pwm os"
  "\<not> in_range pwm 0 4 \<Longrightarrow>
     config_bytes hyst pm wd fft sf pwm os = config_bytes hyst pm wd fft sf 0 os"
  "\<not> in_range os 0 2 \<Longrightarrow>
     config_bytes hyst pm wd fft sf pwm os = config_bytes hyst pm wd fft sf pwm 0"
  by (simp_all add: config_bytes_def Let_def in_range_zero split del: if_split)

subsection \<open>What each method does on the bus\<close>

lemma init_run:
  "init h p w f s q o' bus =
     (let ev = Writeto ADDRESS [0x07, word_of_int (fst (config_bytes h p w f s q o')),
                                word_of_int (snd (config_bytes h p w f s q o'))]
      in (if nack bus (trace bus) ev then Inl OSError else Inr (),
          bus\<lparr>trace := trace bus @ [ev]\<rparr>))"
proof (cases "config_bytes h p w f s q o'")
  case (Pair c1 c2)
  with py_bytes_config [of h p w f s q o'] show ?thesis
    by (simp add: init_def seq_def lift_def writeto_def Let_def)
qed

lemma getStatus_run:
  "getStatus bus =
    (let h = trace bus;
         w1 = Writeto ADDRESS [0x0B]; r1 = Readfrom ADDRESS 1;
         w2 = Writeto ADDRESS [0x1A]; r2 = Readfrom ADDRESS 1 in
     if nack bus h w1 then (Inl OSError, bus\<lparr>trace := h @ [w1]\<rparr>)
     else if nack bus (h @ [w1]) r1 then (Inl OSError, bus\<lparr>trace := h @ [w1, r1]\<rparr>)
     else if nack bus (h @ [w1, r1]) w2 then (Inl OSError, bus\<lparr>trace := h @ [w1, r1, w2]\<rparr>)
     else if nack bus (h @ [w1, r1, w2]) r2
       then (Inl OSError, bus\<lparr>trace := h @ [w1, r1, w2, r2]\<rparr>)
     else (let s = rx bus (h @ [w1]) ADDRESS 0; a = rx bus (h @ [w1, r1, w2]) ADDRESS 0 in
           (Inr [''magnetDetected'' \<mapsto> PyBool (bit s 5),
                 ''magnetTooWeak'' \<mapsto> PyBool (bit s 4),
                 ''magnetTooStrong'' \<mapsto> PyBool (bit s 3),
                 ''agc'' \<mapsto> PyInt (uint a)],
            bus\<lparr>trace := h @ [w1, r1, w2, r2]\<rparr>)))"
  by (simp add: getStatus_def seq_def lift_def py_bytes_regs writeto_def readfrom_def ret_def
     from_bytes_big_1 status_masks Let_def)

lemma isOk_run:
  "isOk bus =
    (let h = trace bus; w = Writeto ADDRESS [0x0B]; r = Readfrom ADDRESS 1 in
     if nack bus h w then (Inl OSError, bus\<lparr>trace := h @ [w]\<rparr>)
     else if nack bus (h @ [w]) r then (Inl OSError, bus\<lparr>trace := h @ [w, r]\<rparr>)
     else (let s = rx bus (h @ [w]) ADDRESS 0 in
           (Inr (bit s 5 \<and> \<not> bit s 3 \<and> \<not> bit s 4), bus\<lparr>trace := h @ [w, r]\<rparr>)))"
  by (simp add: isOk_def seq_def lift_def py_bytes_regs writeto_def readfrom_def ret_def
     from_bytes_big_1 status_masks Let_def)

lemma getAngle_run:
  "getAngle bus =
    (let h = trace bus; w = Writeto ADDRESS [0x0E]; r = Readfrom ADDRESS 2 in
     if nack bus h w then (Inl OSError, bus\<lparr>trace := h @ [w]\<rparr>)
     else if nack bus (h @ [w]) r then (Inl OSError, bus\<lparr>trace := h @ [w, r]\<rparr>)
     else (Inr (uint (rx bus (h @ [w]) ADDRESS 0) * 256 + uint (rx bus (h @ [w]) ADDRESS 1)),
           bus\<lparr>trace := h @ [w, r]\<rparr>))"
  by (simp add: getAngle_def seq_def lift_def py_bytes_regs writeto_def readfrom_def ret_def
     from_bytes_big_2 upt_2 Let_def)

lemma getAngleDegreesFast_run:
  "getAngleDegreesFast bus =
    (let h = trace bus; w = Writeto ADDRESS [0x0E]; r = Readfrom ADDRESS 2 in
     if nack bus h w then (Inl OSError, bus\<lparr>trace := h @ [w]\<rparr>)
     else if nack bus (h @ [w]) r then (Inl OSError, bus\<lparr>trace := h @ [w, r]\<rparr>)
     else (Inr (float_of (uint (rx bus (h @ [w]) ADDRESS 0) * 256 +
                          uint (rx bus (h @ [w]) ADDRESS 1)) / 4096 * 360),
           bus\<lparr>trace := h @ [w, r]\<rparr>))"
  by (simp add: getAngleDegreesFast_def seq_def writeto_def readfrom_def ret_def
     from_bytes_big_2 upt_2 Let_def)

lemma getAngleDegreesFast_as_getAngle:
  "getAngleDegreesFast bus =
     (case getAngle bus of
        (Inl e, bus2) \<Rightarrow> (Inl e, bus2)
      | (Inr a, bus2) \<Rightarrow> (Inr (real_of_int a / 4096 * 360), bus2))"
  by (simp add: getAngleDegreesFast_run getAngle_run Let_def float_of_def)

lemma getAngleDegrees_run:
  "getAngleDegrees bus =
     (case isOk bus of
        (Inl e, bus1) \<Rightarrow> (Inl e, bus1)
      | (Inr ok, bus1) \<Rightarrow>
          if ok then
            (case getAngle bus1 of
               (Inl e, bus2) \<Rightarrow> (Inl e, bus2)
             | (Inr a, bus2) \<Rightarrow> (Inr (Some (real_of_int a / 4096 * 360)), bus2))
          else (Inr None, bus1))"
  by (simp add: getAngleDegrees_def seq_def ret_def float_of_def
      split: prod.splits sum.splits)

lemma getAngleDegrees_not_ok:
  assumes "fst (isOk bus) \<noteq> Inr True"
  shows "getAngleDegrees bus =
           (case fst (isOk bus) of Inl e \<Rightarrow> Inl e | Inr ok \<Rightarrow> Inr None, snd (isOk bus))"
  using assms by (cases "isOk bus") (auto simp: getAngleDegrees_run split: sum.splits)

lemma getAngleDegrees_ok:
  assumes "fst (isOk bus) = Inr True"
  shows "getAngleDegrees bus =
           (case getAngle (snd (isOk bus)) of
              (Inl e, bus2) \<Rightarrow> (Inl e, bus2)
            | (Inr a, bus2) \<Rightarrow> (Inr (Some (real_of_int a / 4096 * 360)), bus2))"
  using assms by (cases "isOk bus") (auto simp: getAngleDegrees_run)

lemma getAngleDegrees_ok_trace:
  assumes "fst (isOk bus) = Inr True"
  shows "trace (snd (getAngleDegrees bus)) = trace (snd (getAngle (snd (isOk bus))))"
  using assms by (simp add: getAngleDegrees_ok split: prod.splits sum.splits)

lemma isOk_trace_cases:
  "trace (snd (isOk bus)) = trace bus @ [Writeto ADDRESS [0x0B]] \<or>
   trace (snd (isOk bus)) = trace bus @ [Writeto ADDRESS [0x0B], Readfrom ADDRESS 1]"
  by (simp add: isOk_run Let_def)

lemma isOk_False_trace:
  "fst (isOk bus) = Inr False \<Longrightarrow>
     trace (snd (isOk bus)) = trace bus @ [Writeto ADDRESS [0x0B], Readfrom ADDRESS 1]"
  by (simp add: isOk_run Let_def split: if_splits)

lemma isOk_True_trace:
  "fst (isOk bus) = Inr True \<Longrightarrow>
     trace (snd (isOk bus)) = trace bus @ [Writeto ADDRESS [0x0B], Readfrom ADDRESS 1]"
  by (simp add: isOk_run Let_def split: if_splits)

lemma getAngle_trace_cases:
  "trace (snd (getAngle bus)) = trace bus @ [Writeto ADDRESS [0x0E]] \<or>
   trace (snd (getAngle bus)) = trace bus @ [Writeto ADDRESS [0x0E], Readfrom ADDRESS 2]"
  by (simp add: getAngle_run Let_def)

lemma getAngle_range:
  assumes "fst (getAngle bus) = Inr a"
  shows "0 \<le> a \<and> a < 65536"
proof -
  obtain hi lo :: byte where a: "a = uint hi * 256 + uint lo"
    using assms by (auto simp: getAngle_run Let_def split: if_splits)
  have "uint hi < 256" "uint lo < 256"
    using uint_bounded [of hi] uint_bounded [of lo] by simp_all
  then show ?thesis using a by simp
qed

text \<open>
  No rounding in the conversion: what \<open>getAngle\<close> returns has at most 16 bits, the quotient
  by 4096 only changes the exponent, and the product with 360 is \<open>45 * a / 2 ^ 9\<close> with
  \<open>45 * a\<close> below \<open>2 ^ 22\<close>.
\<close>

lemma degrees_exact:
  assumes "fst (getAngle bus) = Inr a"
  shows "0 \<le> a \<and> a < 2 ^ 16 \<and> float_of a / 4096 = real_of_int a / 2 ^ 12 \<and>
         45 * a < 2 ^ 22 \<and> float_of a / 4096 * 360 = real_of_int (45 * a) / 2 ^ 9"
  using getAngle_range [OF assms] by (simp add: float_of_def)

subsection \<open>The simulated sensor\<close>

lemma sim_acks:
  "\<not> nack (sim_i2c regs) h (Writeto ADDRESS bs)"
  "\<not> nack (sim_i2c regs) h (Readfrom ADDRESS n)"
  by (simp_all add: sim_i2c_def ADDRESS_def)

lemma sim_trace: "trace (sim_i2c regs) = []"
  by (simp add: sim_i2c_def)

lemma sim_rx: "rx (sim_i2c regs) [Writeto a [r]] a' k = regs (unat r + k)"
  by (simp add: sim_i2c_def pointer_def)

section \<open>Construction\<close>

text \<open>
  Claim C1, as the code has it. For options within their ranges (hysteresis, power mode,
  slow filter and PWM frequency 0 to 3, watchdog and output stage 0 to 1, fast filter
  threshold 0 to 7) the constructor assembles
  \<open>C1 = (watchdog << 5) | (fastFilterThreshold << 2) | slowFilter\<close> and
  \<open>C2 = (pwmFreq << 6) | (outputStage << 4) | (hyst << 2) | powerMode\<close>. For hysteresis 2,
  power mode 1, watchdog 1, fast filter threshold 5, slow filter 2, PWM frequency 3 and
  output stage 1 the formula gives \<open>C1 = 0x36\<close> and \<open>C2 = 0xD9\<close>.
\<close>

theorem config_bytes_formula:
  assumes "in_range hyst 0 4" and "in_range powerMode 0 4" and "in_range watchdog 0 2"
    and "in_range fastFilterThreshold 0 8" and "in_range slowFilter 0 4"
    and "in_range pwmFreq 0 4" and "in_range outputStage 0 2"
  shows "config_bytes hyst powerMode watchdog fastFilterThreshold slowFilter pwmFreq outputStage =
           (push_bit 5 watchdog OR push_bit 2 fastFilterThreshold OR slowFilter,
            push_bit 6 pwmFreq OR push_bit 4 outputStage OR push_bit 2 hyst OR powerMode) \<and>
         config_bytes 2 1 1 5 2 3 1 = (0x36, 0xD9)"
  using assms by (simp add: config_bytes_def in_range_def ac_simps)

theorem config_bytes_formula_witness:
  "config_bytes 2 1 1 5 2 3 1 =
     (push_bit 5 1 OR push_bit 2 5 OR 2, push_bit 6 3 OR push_bit 4 1 OR push_bit 2 2 OR 1) \<and>
   config_bytes 2 1 1 5 2 3 1 = (0x36, 0xD9)"
  using config_bytes_formula [of 2 1 1 5 2 3 1] by (simp add: in_range_def)

text \<open>
  Neither of the bytes \<open>0x29\<close> and \<open>0xDE\<close>, which the specification gives for this vector,
  is the one the constructor assembles.
\<close>

theorem config_bytes_not_spec_example:
  "fst (config_bytes 2 1 1 5 2 3 1) \<noteq> 0x29 \<and> snd (config_bytes 2 1 1 5 2 3 1) \<noteq> 0xDE"
  by (simp add: config_bytes_def in_range_def)

text \<open>
  Claim C4. An option outside its range (hysteresis, power mode, slow filter, PWM frequency
  0 to 3; watchdog, output stage 0 to 1; fast filter threshold 0 to 7) leaves its bits at
  zero: the configuration bytes are those of the same call with that option 0. No error is
  raised for it: the constructor fails only if the bus does not acknowledge the write.
\<close>

theorem out_of_range_as_zero:
  "(\<not> in_range hyst 0 4 \<longrightarrow>
      config_bytes hyst pm wd fft sf pwm os = config_bytes 0 pm wd fft sf pwm os) \<and>
   (\<not> in_range pm 0 4 \<longrightarrow>
      config_bytes hyst pm wd fft sf pwm os = config_bytes hyst 0 wd fft sf pwm os) \<and>
   (\<not> in_range wd 0 2 \<longrightarrow>
      config_bytes hyst pm wd fft sf pwm os = config_bytes hyst pm 0 fft sf pwm os) \<and>
   (\<not> in_range fft 0 8 \<longrightarrow>
      config_bytes hyst pm wd fft sf pwm os = config_bytes hyst pm wd 0 sf pwm os) \<and>
   (\<not> in_range sf 0 4 \<longrightarrow>
      config_bytes hyst pm wd fft sf pwm os = config_bytes hyst pm wd fft 0 pwm os) \<and>
   (\<not> in_range pwm 0 4 \<longrightarrow>
      config_bytes hyst pm wd fft sf pwm os = config_bytes hyst pm wd fft sf 0 os) \<and>
   (\<not> in_range os 0 2 \<longrightarrow>
      config_bytes hyst pm wd fft sf pwm os = config_bytes hyst pm wd fft sf pwm 0) \<and>
   fst (init hyst pm wd fft sf pwm os bus) =
     (if nack bus (trace bus)
           (Writeto ADDRESS [0x07, word_of_int (fst (config_bytes hyst pm wd fft sf pwm os)),
                             word_of_int (snd (config_bytes hyst pm wd fft sf pwm os))])
      then Inl OSError else Inr ())"
  by (simp add: init_run Let_def dropped_option split del: if_split)

theorem out_of_range_as_zero_witness:
  "\<not> in_range 7 0 4 \<and> config_bytes 7 1 1 5 2 3 1 = config_bytes 0 1 1 5 2 3 1 \<and>
   \<not> in_range (-1) 0 4 \<and> config_bytes 2 (-1) 1 5 2 3 1 = config_bytes 2 0 1 5 2 3 1 \<and>
   \<not> in_range 2 0 2 \<and> config_bytes 2 1 2 5 2 3 1 = config_bytes 2 1 0 5 2 3 1 \<and>
   \<not> in_range 8 0 8 \<and> config_bytes 2 1 1 8 2 3 1 = config_bytes 2 1 1 0 2 3 1 \<and>
   \<not> in_range 4 0 4 \<and> config_bytes 2 1 1 5 4 3 1 = config_bytes 2 1 1 5 0 3 1 \<and>
   \<not> in_range 100 0 4 \<and> config_bytes 2 1 1 5 2 100 1 = config_bytes 2 1 1 5 2 0 1 \<and>
   \<not> in_range 2 0 2 \<and> config_bytes 2 1 1 5 2 3 2 = config_bytes 2 1 1 5 2 3 0"
  using out_of_range_as_zero [of 7 1 1 5 2 3 1]
    out_of_range_as_zero [of 2 "-1" 1 5 2 3 1]
    out_of_range_as_zero [of 2 1 2 5 2 3 1]
    out_of_range_as_zero [of 2 1 1 8 2 3 1]
    out_of_range_as_zero [of 2 1 1 5 4 3 1]
    out_of_range_as_zero [of 2 1 1 5 2 100 1]
    out_of_range_as_zero [of 2 1 1 5 2 3 2]
  by (simp add: in_range_def)

text \<open>
  Claim C8. Whatever the option values, construction issues exactly one transaction: a write
  to the device address \<open>0x40\<close> of the selector \<open>0x07\<close> of the configuration register
  followed by the bytes \<open>C1\<close> and \<open>C2\<close>. Nothing is read back, and the bus is otherwise
  unchanged.
\<close>

theorem init_single_write:
  "trace (snd (init h p w f s q o' bus)) =
     trace bus @ [Writeto 0x40 [0x07, word_of_int (fst (config_bytes h p w f s q o')),
                                word_of_int (snd (config_bytes h p w f s q o'))]] \<and>
   uint (word_of_int (fst (config_bytes h p w f s q o')) :: byte) =
     fst (config_bytes h p w f s q o') \<and>
   uint (word_of_int (snd (config_bytes h p w f s q o')) :: byte) =
     snd (config_bytes h p w f s q o') \<and>
   nack (snd (init h p w f s q o' bus)) = nack bus \<and>
   rx (snd (init h p w f s q o' bus)) = rx bus"
  using c1_byte [of h p w f s q o'] c2_byte [of h p w f s q o']
  by (simp add: init_run Let_def ADDRESS_def uint_word_of_int take_bit_eq_mod)

text \<open>
  Claim C9. For all integer option values, negative and large ones included, \<open>C1\<close> and \<open>C2\<close>
  lie in 0 to 255, so \<open>bytes([CONF_REG, c1, c2])\<close> does not raise \<open>ValueError\<close>, and neither
  does the constructor.
\<close>

theorem config_payload_never_fails:
  "0 \<le> fst (config_bytes h p w f s q o') \<and> fst (config_bytes h p w f s q o') \<le> 255 \<and>
   0 \<le> snd (config_bytes h p w f s q o') \<and> snd (config_bytes h p w f s q o') \<le> 255 \<and>
   py_bytes [CONF_REG, fst (config_bytes h p w f s q o'), snd (config_bytes h p w f s q o')]
     \<noteq> Inl ValueError \<and>
   fst (init h p w f s q o' bus) \<noteq> Inl ValueError"
  using c1_byte [of h p w f s q o'] c2_byte [of h p w f s q o']
    py_bytes_config [of h p w f s q o']
  by (simp add: init_run Let_def)

text \<open>Far outside every range, no bit is set.\<close>

lemma config_bytes_far_out_of_range:
  "config_bytes (-1) 4 (-5) 8 1000000 (-300) 2 = (0, 0)"
  by (simp add: config_bytes_def in_range_def)

section \<open>Status\<close>

text \<open>
  Claim C6. When the four transactions are acknowledged, \<open>getStatus\<close> returns, for every
  status byte \<open>s\<close> and AGC byte \<open>a\<close>, the dictionary with bit 3 of \<open>s\<close> as
  \<open>magnetTooStrong\<close>, bit 4 as \<open>magnetTooWeak\<close>, bit 5 as \<open>magnetDetected\<close> and \<open>a\<close> as
  \<open>agc\<close>: no field depends on whether the status is a valid one.
\<close>

theorem getStatus_decodes:
  assumes "\<not> nack bus (trace bus) (Writeto ADDRESS [0x0B])"
    and "\<not> nack bus (trace bus @ [Writeto ADDRESS [0x0B]]) (Readfrom ADDRESS 1)"
    and "\<not> nack bus (trace bus @ [Writeto ADDRESS [0x0B], Readfrom ADDRESS 1])
           (Writeto ADDRESS [0x1A])"
    and "\<not> nack bus (trace bus @ [Writeto ADDRESS [0x0B], Readfrom ADDRESS 1,
                                    Writeto ADDRESS [0x1A]]) (Readfrom ADDRESS 1)"
    and "s = rx bus (trace bus @ [Writeto ADDRESS [0x0B]]) ADDRESS 0"
    and "a = rx bus (trace bus @ [Writeto ADDRESS [0x0B], Readfrom ADDRESS 1,
                                  Writeto ADDRESS [0x1A]]) ADDRESS 0"
  shows "fst (getStatus bus) =
           Inr [''magnetDetected'' \<mapsto> PyBool (bit s 5),
                ''magnetTooWeak'' \<mapsto> PyBool (bit s 4),
                ''magnetTooStrong'' \<mapsto> PyBool (bit s 3),
                ''agc'' \<mapsto> PyInt (uint a)] \<and>
         issued getStatus bus =
           [Writeto ADDRESS [0x0B], Readfrom ADDRESS 1, Writeto ADDRESS [0x1A], Readfrom ADDRESS 1]"
  using assms by (simp add: getStatus_run Let_def issued_def)

text \<open>No magnet detected, too weak and too strong at once, AGC 128: all four are reported.\<close>

theorem getStatus_decodes_witness:
  "fst (getStatus (sim_i2c ((\<lambda>_. 0)(11 := 0x18, 26 := 0x80)))) =
     Inr [''magnetDetected'' \<mapsto> PyBool False,
          ''magnetTooWeak'' \<mapsto> PyBool True,
          ''magnetTooStrong'' \<mapsto> PyBool True,
          ''agc'' \<mapsto> PyInt 128]"
  using getStatus_decodes [of "sim_i2c ((\<lambda>_. 0)(11 := 0x18, 26 := 0x80))",
      OF sim_acks sim_acks refl refl]
  by (simp add: sim_i2c_def pointer_def)

text \<open>
  Claim C2. When the status read is acknowledged, \<open>isOk\<close> returns true if and only if the
  byte read from the status register has bit 5 (magnet detected) set and bits 3 (too strong)
  and 4 (too weak) clear, and false on the seven other combinations of the three bits.
\<close>

theorem isOk_iff_magnet_valid:
  assumes "\<not> nack bus (trace bus) (Writeto ADDRESS [0x0B])"
    and "\<not> nack bus (trace bus @ [Writeto ADDRESS [0x0B]]) (Readfrom ADDRESS 1)"
    and "s = rx bus (trace bus @ [Writeto ADDRESS [0x0B]]) ADDRESS 0"
  shows "fst (isOk bus) = Inr (bit s 5 \<and> \<not> bit s 3 \<and> \<not> bit s 4) \<and>
         issued isOk bus = [Writeto ADDRESS [0x0B], Readfrom ADDRESS 1]"
  using assms by (simp add: isOk_run Let_def issued_def)

text \<open>The eight combinations of the three bits.\<close>

theorem isOk_iff_magnet_valid_witness:
  "fst (isOk (sim_i2c ((\<lambda>_. 0)(11 := 0x20)))) = Inr True \<and>
   fst (isOk (sim_i2c ((\<lambda>_. 0)(11 := 0x00)))) = Inr False \<and>
   fst (isOk (sim_i2c ((\<lambda>_. 0)(11 := 0x08)))) = Inr False \<and>
   fst (isOk (sim_i2c ((\<lambda>_. 0)(11 := 0x10)))) = Inr False \<and>
   fst (isOk (sim_i2c ((\<lambda>_. 0)(11 := 0x18)))) = Inr False \<and>
   fst (isOk (sim_i2c ((\<lambda>_. 0)(11 := 0x28)))) = Inr False \<and>
   fst (isOk (sim_i2c ((\<lambda>_. 0)(11 := 0x30)))) = Inr False \<and>
   fst (isOk (sim_i2c ((\<lambda>_. 0)(11 := 0x38)))) = Inr False"
  using isOk_iff_magnet_valid [of "sim_i2c ((\<lambda>_. 0)(11 := 0x20))", OF sim_acks refl]
    isOk_iff_magnet_valid [of "sim_i2c ((\<lambda>_. 0)(11 := 0x00))", OF sim_acks refl]
    isOk_iff_magnet_valid [of "sim_i2c ((\<lambda>_. 0)(11 := 0x08))", OF sim_acks refl]
    isOk_iff_magnet_valid [of "sim_i2c ((\<lambda>_. 0)(11 := 0x10))", OF sim_acks refl]
    isOk_iff_magnet_valid [of "sim_i2c ((\<lambda>_. 0)(11 := 0x18))", OF sim_acks refl]
    isOk_iff_magnet_valid [of "sim_i2c ((\<lambda>_. 0)(11 := 0x28))", OF sim_acks refl]
    isOk_iff_magnet_valid [of "sim_i2c ((\<lambda>_. 0)(11 := 0x30))", OF sim_acks refl]
    isOk_iff_magnet_valid [of "sim_i2c ((\<lambda>_. 0)(11 := 0x38))", OF sim_acks refl]
  by (simp add: sim_trace sim_rx)

section \<open>Angle queries\<close>

text \<open>
  Claim C7. \<open>getAngle\<close> writes the selector of the angle register and reads two bytes, which
  it decodes high byte first and does not mask: it returns \<open>256 * hi + lo\<close>. So a value from
  0 to 4095 held in the register as its two big-endian bytes is returned as it is.
\<close>

theorem getAngle_roundtrip:
  assumes "\<not> nack bus (trace bus) (Writeto ADDRESS [0x0E])"
    and "\<not> nack bus (trace bus @ [Writeto ADDRESS [0x0E]]) (Readfrom ADDRESS 2)"
    and "hi = rx bus (trace bus @ [Writeto ADDRESS [0x0E]]) ADDRESS 0"
    and "lo = rx bus (trace bus @ [Writeto ADDRESS [0x0E]]) ADDRESS 1"
  shows "issued getAngle bus = [Writeto ADDRESS [0x0E], Readfrom ADDRESS 2] \<and>
         fst (getAngle bus) = Inr (uint hi * 256 + uint lo) \<and>
         (0 \<le> v \<and> v < 4096 \<and> hi = word_of_int (v div 256) \<and> lo = word_of_int (v mod 256) \<longrightarrow>
            fst (getAngle bus) = Inr v)"
proof -
  have run: "issued getAngle bus = [Writeto ADDRESS [0x0E], Readfrom ADDRESS 2]"
      "fst (getAngle bus) = Inr (uint hi * 256 + uint lo)"
    using assms by (simp_all add: getAngle_run Let_def issued_def)
  have "uint hi * 256 + uint lo = v"
    if "0 \<le> v" "v < 4096" "hi = word_of_int (v div 256)" "lo = word_of_int (v mod 256)"
    using that be16_roundtrip [of v] by simp
  with run show ?thesis by simp
qed

text \<open>The boundaries 0 and 4095, the middle, and a value with the upper four bits set.\<close>

theorem getAngle_roundtrip_witness:
  "fst (getAngle (sim_i2c ((\<lambda>_. 0)(14 := 0x00, 15 := 0x00)))) = Inr 0 \<and>
   fst (getAngle (sim_i2c ((\<lambda>_. 0)(14 := 0x08, 15 := 0x00)))) = Inr 2048 \<and>
   fst (getAngle (sim_i2c ((\<lambda>_. 0)(14 := 0x0F, 15 := 0xFF)))) = Inr 4095 \<and>
   fst (getAngle (sim_i2c ((\<lambda>_. 0)(14 := 0xAB, 15 := 0xCD)))) = Inr 0xABCD \<and>
   issued getAngle (sim_i2c ((\<lambda>_. 0)(14 := 0x0F, 15 := 0xFF))) =
     [Writeto ADDRESS [0x0E], Readfrom ADDRESS 2]"
  using getAngle_roundtrip [of "sim_i2c ((\<lambda>_. 0)(14 := 0x00, 15 := 0x00))" _ _ 0,
      OF sim_acks refl refl]
    getAngle_roundtrip [of "sim_i2c ((\<lambda>_. 0)(14 := 0x08, 15 := 0x00))" _ _ 2048,
      OF sim_acks refl refl]
    getAngle_roundtrip [of "sim_i2c ((\<lambda>_. 0)(14 := 0x0F, 15 := 0xFF))" _ _ 4095,
      OF sim_acks refl refl]
    getAngle_roundtrip [of "sim_i2c ((\<lambda>_. 0)(14 := 0xAB, 15 := 0xCD))" _ _ 0,
      OF sim_acks refl refl]
  by (simp add: sim_trace sim_rx)

text \<open>
  Claim C3. When \<open>isOk\<close> returns false, \<open>getAngleDegrees\<close> returns \<open>None\<close> and leaves the bus as
  \<open>isOk\<close> left it: the only transactions are the selection and the read of the status
  register. The angle register is selected, and two bytes are read, only when \<open>isOk\<close> returns
  true.
\<close>

theorem getAngleDegrees_short_circuit:
  "(fst (isOk bus) = Inr False \<longrightarrow>
      fst (getAngleDegrees bus) = Inr None \<and>
      snd (getAngleDegrees bus) = snd (isOk bus) \<and>
      issued getAngleDegrees bus = [Writeto ADDRESS [0x0B], Readfrom ADDRESS 1]) \<and>
   (Writeto ADDRESS [0x0E] \<in> set (issued getAngleDegrees bus) \<longleftrightarrow> fst (isOk bus) = Inr True) \<and>
   (Readfrom ADDRESS 2 \<in> set (issued getAngleDegrees bus) \<longrightarrow> fst (isOk bus) = Inr True)"
proof (cases "fst (isOk bus) = Inr True")
  case True
  have t1: "trace (snd (isOk bus)) = trace bus @ [Writeto ADDRESS [0x0B], Readfrom ADDRESS 1]"
    using True by (rule isOk_True_trace)
  have "Writeto ADDRESS [0x0E] \<in> set (issued getAngleDegrees bus)"
    using getAngle_trace_cases [of "snd (isOk bus)"]
    by (auto simp: issued_def getAngleDegrees_ok_trace [OF True] t1)
  with True show ?thesis by simp
next
  case False
  have run: "getAngleDegrees bus =
      (case fst (isOk bus) of Inl e \<Rightarrow> Inl e | Inr ok \<Rightarrow> Inr None, snd (isOk bus))"
    using False by (rule getAngleDegrees_not_ok)
  have new: "issued getAngleDegrees bus = issued isOk bus"
    by (simp add: issued_def run)
  have "issued isOk bus = [Writeto ADDRESS [0x0B]] \<or>
        issued isOk bus = [Writeto ADDRESS [0x0B], Readfrom ADDRESS 1]"
    using isOk_trace_cases [of bus] by (auto simp: issued_def)
  then have none: "Writeto ADDRESS [0x0E] \<notin> set (issued getAngleDegrees bus)"
      "Readfrom ADDRESS 2 \<notin> set (issued getAngleDegrees bus)"
    by (auto simp: new)
  have "fst (isOk bus) = Inr False \<Longrightarrow>
      issued getAngleDegrees bus = [Writeto ADDRESS [0x0B], Readfrom ADDRESS 1]"
    unfolding new by (simp add: issued_def isOk_False_trace)
  with False none show ?thesis by (simp add: run)
qed

text \<open>A magnet that is too strong: no angle is read. A good magnet: the angle is read.\<close>

theorem getAngleDegrees_short_circuit_witness:
  "fst (isOk (sim_i2c ((\<lambda>_. 0)(11 := 0x08, 14 := 0x08)))) = Inr False \<and>
   fst (getAngleDegrees (sim_i2c ((\<lambda>_. 0)(11 := 0x08, 14 := 0x08)))) = Inr None \<and>
   issued getAngleDegrees (sim_i2c ((\<lambda>_. 0)(11 := 0x08, 14 := 0x08))) =
     [Writeto ADDRESS [0x0B], Readfrom ADDRESS 1] \<and>
   fst (isOk (sim_i2c ((\<lambda>_. 0)(11 := 0x20, 14 := 0x08)))) = Inr True \<and>
   Writeto ADDRESS [0x0E] \<in> set (issued getAngleDegrees (sim_i2c ((\<lambda>_. 0)(11 := 0x20, 14 := 0x08))))"
proof -
  have no: "fst (isOk (sim_i2c ((\<lambda>_. 0)(11 := 0x08, 14 := 0x08)))) = Inr False"
    by (simp add: isOk_run Let_def sim_acks sim_trace sim_rx)
  have yes: "fst (isOk (sim_i2c ((\<lambda>_. 0)(11 := 0x20, 14 := 0x08)))) = Inr True"
    by (simp add: isOk_run Let_def sim_acks sim_trace sim_rx)
  show ?thesis
    using getAngleDegrees_short_circuit [of "sim_i2c ((\<lambda>_. 0)(11 := 0x08, 14 := 0x08))"]
      getAngleDegrees_short_circuit [of "sim_i2c ((\<lambda>_. 0)(11 := 0x20, 14 := 0x08))"]
    by (simp add: no yes)
qed

text \<open>
  Claim C5. When \<open>isOk\<close> returns true and the angle register reads \<open>raw\<close>, \<open>getAngleDegrees\<close>
  returns \<open>raw / 4096 * 360\<close>, and so does \<open>getAngleDegreesFast\<close> on any bus whose angle
  register reads the same \<open>raw\<close>. For a 12-bit \<open>raw\<close> the value is in \<open>[0, 360)\<close>; it is 180
  for 2048, 0 for 0 and 359.912109375 for 4095.
\<close>

theorem degrees_conversion:
  assumes "isOk bus = (Inr True, bus1)"
    and "fst (getAngle bus1) = Inr raw"
    and "fst (getAngle bus2) = Inr raw"
  shows "fst (getAngleDegrees bus) = Inr (Some (real_of_int raw / 4096 * 360)) \<and>
         fst (getAngleDegreesFast bus2) = Inr (real_of_int raw / 4096 * 360) \<and>
         (0 \<le> raw \<and> raw < 4096 \<longrightarrow>
            0 \<le> real_of_int raw / 4096 * 360 \<and> real_of_int raw / 4096 * 360 < 360) \<and>
         (raw = 2048 \<longrightarrow> real_of_int raw / 4096 * 360 = 180) \<and>
         (raw = 0 \<longrightarrow> real_of_int raw / 4096 * 360 = 0) \<and>
         (raw = 4095 \<longrightarrow> real_of_int raw / 4096 * 360 = 359.912109375 \<and>
            \<bar>real_of_int raw / 4096 * 360 - 359.912\<bar> < 0.001)"
proof -
  have safe: "fst (getAngleDegrees bus) = Inr (Some (real_of_int raw / 4096 * 360))"
    using assms(1,2) by (cases "getAngle bus1") (simp add: getAngleDegrees_run)
  have fast: "fst (getAngleDegreesFast bus2) = Inr (real_of_int raw / 4096 * 360)"
    using assms(3) by (cases "getAngle bus2") (simp add: getAngleDegreesFast_as_getAngle)
  show ?thesis
    by (simp add: safe fast)
qed

theorem degrees_conversion_witness:
  "fst (getAngleDegrees (sim_i2c ((\<lambda>_. 0)(11 := 0x20, 14 := 0x08, 15 := 0x00)))) =
     Inr (Some 180) \<and>
   fst (getAngleDegreesFast (sim_i2c ((\<lambda>_. 0)(11 := 0x20, 14 := 0x08, 15 := 0x00)))) =
     Inr 180 \<and>
   fst (getAngleDegrees (sim_i2c ((\<lambda>_. 0)(11 := 0x20, 14 := 0x0F, 15 := 0xFF)))) =
     Inr (Some 359.912109375) \<and>
   fst (getAngleDegreesFast (sim_i2c ((\<lambda>_. 0)(11 := 0x20, 14 := 0x0F, 15 := 0xFF)))) =
     Inr 359.912109375 \<and>
   fst (getAngleDegrees (sim_i2c ((\<lambda>_. 0)(11 := 0x20)))) = Inr (Some 0) \<and>
   fst (getAngleDegreesFast (sim_i2c ((\<lambda>_. 0)(11 := 0x20)))) = Inr 0"
proof -
  let ?A = "sim_i2c ((\<lambda>_. 0)(11 := 0x20, 14 := 0x08, 15 := 0x00))"
  let ?B = "sim_i2c ((\<lambda>_. 0)(11 := 0x20, 14 := 0x0F, 15 := 0xFF))"
  let ?C = "sim_i2c ((\<lambda>_. 0)(11 := 0x20))"
  have okA: "isOk ?A = (Inr True, snd (isOk ?A))"
    by (simp add: isOk_run Let_def sim_i2c_def pointer_def ADDRESS_def)
  have okB: "isOk ?B = (Inr True, snd (isOk ?B))"
    by (simp add: isOk_run Let_def sim_i2c_def pointer_def ADDRESS_def)
  have okC: "isOk ?C = (Inr True, snd (isOk ?C))"
    by (simp add: isOk_run Let_def sim_i2c_def pointer_def ADDRESS_def)
  have a1: "fst (getAngle (snd (isOk ?A))) = Inr 2048"
    by (simp add: isOk_run getAngle_run Let_def sim_i2c_def pointer_def ADDRESS_def)
  have a2: "fst (getAngle ?A) = Inr 2048"
    by (simp add: getAngle_run Let_def sim_i2c_def pointer_def ADDRESS_def)
  have b1: "fst (getAngle (snd (isOk ?B))) = Inr 4095"
    by (simp add: isOk_run getAngle_run Let_def sim_i2c_def pointer_def ADDRESS_def)
  have b2: "fst (getAngle ?B) = Inr 4095"
    by (simp add: getAngle_run Let_def sim_i2c_def pointer_def ADDRESS_def)
  have c1: "fst (getAngle (snd (isOk ?C))) = Inr 0"
    by (simp add: isOk_run getAngle_run Let_def sim_i2c_def pointer_def ADDRESS_def)
  have c2: "fst (getAngle ?C) = Inr 0"
    by (simp add: getAngle_run Let_def sim_i2c_def pointer_def ADDRESS_def)
  show ?thesis
    using degrees_conversion [OF okA a1 a2] degrees_conversion [OF okB b1 b2]
      degrees_conversion [OF okC c1 c2]
    by simp
qed

text \<open>
  The bound rests on the register holding 12 bits: nothing is masked, and a read with bit 12
  set converts to 360.
\<close>

lemma degrees_unmasked_example:
  "fst (getAngleDegreesFast (sim_i2c ((\<lambda>_. 0)(14 := 0x10, 15 := 0x00)))) = Inr 360"
  by (simp add: getAngleDegreesFast_run Let_def sim_i2c_def pointer_def ADDRESS_def float_of_def)

text \<open>
  Claim C10. \<open>getAngleDegreesFast\<close> selects the register that \<open>getAngle\<close> selects (its literal
  \<open>0x0e\<close> is the byte of \<open>ANGLE_REG\<close>), reads and decodes two bytes in the same way and
  applies the conversion of \<open>getAngleDegrees\<close>: on every bus it is \<open>getAngle\<close> followed by that
  conversion, in its result (exceptions included) and in the transactions it issues.
\<close>

theorem fast_path_same_as_raw_then_convert:
  "getAngleDegreesFast bus = seq getAngle (\<lambda>a. ret ((float_of a / 4096) * 360)) bus \<and>
   py_bytes [ANGLE_REG] = Inr [0x0e]"
  by (simp add: getAngleDegreesFast_run getAngle_run seq_def ret_def Let_def py_bytes_regs)

end
